theory Spec2Isabelle
  imports Main
begin

section \<open>Provider resources\<close>

text \<open>
  The program declares cloud resources by constructing provider objects
  (\<^verbatim>\<open>new gcp.compute.Network(name, args)\<close> and so on). The provider library is not
  part of the repository, so the model keeps of it only what the repository's code can
  observe:
  \<^item> the engine's state is the ordered log of the resources declared so far;
  \<^item> the object that a constructor returns is a handle, the position of its declaration
    in that log;
  \<^item> the properties \<^verbatim>\<open>id\<close> and \<^verbatim>\<open>name\<close> of such an object are outputs that the provider
    resolves later, so they are kept symbolic: \<open>ResourceId h\<close> and \<open>ResourceName h\<close>;
  \<^item> whether the provider's constructor throws is a parameter of the model: a predicate
    on the engine's state and the declaration.

  A record field whose name the source also uses for something else (a parameter of the
  constructor, or a field of another object) carries a prefix: \<open>cfg_name\<close>,
  \<open>subnet_region\<close>, \<open>subnet_network\<close>, \<open>fw_network\<close>, \<open>fw_sourceRanges\<close>,
  \<open>details_subnets\<close>.
\<close>

type_synonym handle = nat

datatype Output = ResourceId handle | ResourceName handle

text \<open>The element type of the constructor's \<^verbatim>\<open>subnetsConfig\<close> parameter.\<close>

record subnetConfig =
  cidrRange :: string
  cfg_name :: string

record NetworkArgs =
  autoCreateSubnetworks :: bool

record SubnetworkArgs =
  ipCidrRange :: string
  subnet_region :: string
  subnet_network :: Output
  privateIpGoogleAccess :: bool

text \<open>
  An optional property of an argument object is an \<open>option\<close>: \<open>None\<close> is a property
  that the object literal does not have, or has with the value \<^verbatim>\<open>undefined\<close>.
\<close>

record FirewallAllow =
  protocol :: string
  ports :: "string list option"

record FirewallLogConfig =
  metadata :: string

record FirewallArgs =
  fw_network :: Output
  allows :: "FirewallAllow list"
  fw_sourceRanges :: "string list option"
  targetTags :: "string list option"
  direction :: string
  logConfig :: FirewallLogConfig

datatype resource =
    Network string NetworkArgs
  | Subnetwork string SubnetworkArgs
  | Firewall string FirewallArgs

datatype error = ResourceError resource

type_synonym world = "resource list"

type_synonym provider = "world \<Rightarrow> resource \<Rightarrow> bool"

text \<open>
  \<^verbatim>\<open>new gcp.compute.X(name, args)\<close>: the provider either throws, or the declaration is
  appended to the log and its handle returned.
\<close>

definition new_resource :: "provider \<Rightarrow> resource \<Rightarrow> world \<Rightarrow> error + (handle \<times> world)" where
  "new_resource prov r w =
     (if prov w r then Inr (length w, w @ [r]) else Inl (ResourceError r))"

section \<open>The class VPC (src/modules/vpc.ts)\<close>

record VPC =
  vpc :: handle
  subnets :: "handle list"

text \<open>
  The body of \<^verbatim>\<open>subnetsConfig.forEach\<close> in the constructor: one Subnetwork per entry,
  pushed onto \<^verbatim>\<open>this.subnets\<close>. An exception of the provider leaves the loop.
\<close>

fun forEach_subnetsConfig ::
  "provider \<Rightarrow> string \<Rightarrow> subnetConfig list \<Rightarrow> VPC \<Rightarrow> world \<Rightarrow> error + (VPC \<times> world)" where
  "forEach_subnetsConfig prov region [] this w = Inr (this, w)"
| "forEach_subnetsConfig prov region (c # rest) this w =
     (case new_resource prov
             (Subnetwork (cfg_name c)
                \<lparr>ipCidrRange = cidrRange c,
                 subnet_region = region,
                 subnet_network = ResourceId (vpc this),
                 privateIpGoogleAccess = True\<rparr>) w of
        Inl e \<Rightarrow> Inl e
      | Inr (subnet, w1) \<Rightarrow>
          forEach_subnetsConfig prov region rest
            (this\<lparr>subnets := subnets this @ [subnet]\<rparr>) w1)"

text \<open>
  The two parameters are declared \<^verbatim>\<open>string[]\<close> and go unchanged into the optional
  property \<^verbatim>\<open>sourceRanges\<close> of the firewall's arguments. They are options here because
  a JavaScript call may supply fewer arguments than the function declares: the missing
  parameter is then \<^verbatim>\<open>undefined\<close>, which is \<open>None\<close>.
\<close>

definition createFirewallRules ::
  "provider \<Rightarrow> VPC \<Rightarrow> string list option \<Rightarrow> string list option \<Rightarrow> world
     \<Rightarrow> error + (unit \<times> world)" where
  "createFirewallRules prov this sourceRanges sshSourceRanges w =
     (case new_resource prov
             (Firewall ''allow-internal''
                \<lparr>fw_network = ResourceId (vpc this),
                 allows =
                   [\<lparr>protocol = ''tcp'', ports = Some [''0-65535'']\<rparr>,
                    \<lparr>protocol = ''udp'', ports = Some [''0-65535'']\<rparr>,
                    \<lparr>protocol = ''icmp'', ports = None\<rparr>],
                 fw_sourceRanges = sourceRanges,
                 targetTags = Some [''internal''],
                 direction = ''INGRESS'',
                 logConfig = \<lparr>metadata = ''INCLUDE_ALL_METADATA''\<rparr>\<rparr>) w of
        Inl e \<Rightarrow> Inl e
      | Inr (_, w1) \<Rightarrow>
          (case new_resource prov
                  (Firewall ''allow-ssh''
                     \<lparr>fw_network = ResourceId (vpc this),
                      allows = [\<lparr>protocol = ''tcp'', ports = Some [''22'']\<rparr>],
                      fw_sourceRanges = sshSourceRanges,
                      targetTags = None,
                      direction = ''INGRESS'',
                      logConfig = \<lparr>metadata = ''INCLUDE_ALL_METADATA''\<rparr>\<rparr>) w1 of
             Inl e \<Rightarrow> Inl e
           | Inr (_, w2) \<Rightarrow> Inr ((), w2)))"

text \<open>
  The constructor. The field initialiser \<^verbatim>\<open>subnets = []\<close> and the assignment of
  \<^verbatim>\<open>this.vpc\<close> give the object with which the loop starts.
\<close>

definition VPC_constructor ::
  "provider \<Rightarrow> string \<Rightarrow> string \<Rightarrow> subnetConfig list \<Rightarrow> string list option
     \<Rightarrow> string list option \<Rightarrow> world \<Rightarrow> error + (VPC \<times> world)" where
  "VPC_constructor prov name region subnetsConfig sourceRanges sshSourceRanges w =
     (case new_resource prov (Network name \<lparr>autoCreateSubnetworks = False\<rparr>) w of
        Inl e \<Rightarrow> Inl e
      | Inr (network, w1) \<Rightarrow>
          (case forEach_subnetsConfig prov region subnetsConfig
                  \<lparr>vpc = network, subnets = []\<rparr> w1 of
             Inl e \<Rightarrow> Inl e
           | Inr (this, w2) \<Rightarrow>
               (case createFirewallRules prov this sourceRanges sshSourceRanges w2 of
                  Inl e \<Rightarrow> Inl e
                | Inr (_, w3) \<Rightarrow> Inr (this, w3))))"




section \<open>The entry configuration (src/index.ts)\<close>

type_synonym env = "string \<rightharpoonup> string"

text \<open>
  \<^verbatim>\<open>process.env.X || d\<close>: JavaScript's \<^verbatim>\<open>||\<close> yields its right operand when the left one
  is falsy. A variable that is not set reads as \<^verbatim>\<open>undefined\<close>; of the strings, the empty
  one alone is falsy.
\<close>

definition js_or :: "string option \<Rightarrow> string \<Rightarrow> string" where
  "js_or v d = (case v of None \<Rightarrow> d | Some s \<Rightarrow> if s = [] then d else s)"

definition subnetsConfigIndiaVPC :: "env \<Rightarrow> subnetConfig list" where
  "subnetsConfigIndiaVPC e =
     [\<lparr>cidrRange = js_or (e ''VPC_CIDR_RANGE_1'') ''10.0.0.0/16'', cfg_name = ''vpc-subnet-1''\<rparr>,
      \<lparr>cidrRange = js_or (e ''VPC_CIDR_RANGE_2'') ''10.1.0.0/16'', cfg_name = ''vpc-subnet-2''\<rparr>]"

definition sourceRangesIndiaVPC :: "env \<Rightarrow> string list" where
  "sourceRangesIndiaVPC e = [js_or (e ''VPC_SOURCE_RANGE'') ''10.0.0.0/8'']"

text \<open>
  The call has four arguments; the constructor declares five. The model follows the
  JavaScript that the call compiles to: the fifth parameter, \<^verbatim>\<open>sshSourceRanges\<close>, is
  \<^verbatim>\<open>undefined\<close> in the constructor's body. The program starts with nothing declared.
\<close>

definition indiaVPC :: "provider \<Rightarrow> env \<Rightarrow> error + (VPC \<times> world)" where
  "indiaVPC prov e =
     VPC_constructor prov ''india-vpc'' (js_or (e ''GCP_REGION'') ''us-central1'')
       (subnetsConfigIndiaVPC e) (Some (sourceRangesIndiaVPC e)) None []"


section \<open>Reading the log\<close>

fun resource_name :: "resource \<Rightarrow> string" where
  "resource_name (Network n _) = n"
| "resource_name (Subnetwork n _) = n"
| "resource_name (Firewall n _) = n"

fun networks :: "world \<Rightarrow> (string \<times> NetworkArgs) list" where
  "networks [] = []"
| "networks (Network n a # rs) = (n, a) # networks rs"
| "networks (_ # rs) = networks rs"

fun subnetworks :: "world \<Rightarrow> (string \<times> SubnetworkArgs) list" where
  "subnetworks [] = []"
| "subnetworks (Subnetwork n a # rs) = (n, a) # subnetworks rs"
| "subnetworks (_ # rs) = subnetworks rs"

fun firewalls :: "world \<Rightarrow> (string \<times> FirewallArgs) list" where
  "firewalls [] = []"
| "firewalls (Firewall n a # rs) = (n, a) # firewalls rs"
| "firewalls (_ # rs) = firewalls rs"

text \<open>What a run has declared: the log after it, without the log before it.\<close>

definition created :: "world \<Rightarrow> world \<Rightarrow> world" where
  "created w w' = drop (length w) w'"

text \<open>The arguments of the firewall rules declared under a given name.\<close>

definition firewall_named :: "string \<Rightarrow> world \<Rightarrow> FirewallArgs list" where
  "firewall_named n w = map snd (filter (\<lambda>p. fst p = n) (firewalls w))"


subsection \<open>The provider's notation for ports\<close>






subsection \<open>The provider calls of a run\<close>

text \<open>
  The calls of the provider's constructors that the constructor of VPC makes when none
  of them throws, in the order of vpc.ts: the Network (line 34), one Subnetwork per
  entry of the subnet configuration (lines 39 to 48) and the two firewall rules (lines
  65 to 89). The last parameter is the handle of the Network. This is a second
  description of the constructor, as the list of what it declares; the theorems compare
  \<open>VPC_constructor\<close> with it.
\<close>

definition VPC_declarations ::
  "string \<Rightarrow> string \<Rightarrow> subnetConfig list \<Rightarrow> string list option \<Rightarrow> string list option
     \<Rightarrow> handle \<Rightarrow> resource list" where
  "VPC_declarations name region subnetsConfig sourceRanges sshSourceRanges network =
     Network name \<lparr>autoCreateSubnetworks = False\<rparr>
     # map (\<lambda>c. Subnetwork (cfg_name c)
               \<lparr>ipCidrRange = cidrRange c, subnet_region = region,
                subnet_network = ResourceId network,
                privateIpGoogleAccess = True\<rparr>) subnetsConfig
     @ [Firewall ''allow-internal''
          \<lparr>fw_network = ResourceId network,
           allows =
             [\<lparr>protocol = ''tcp'', ports = Some [''0-65535'']\<rparr>,
              \<lparr>protocol = ''udp'', ports = Some [''0-65535'']\<rparr>,
              \<lparr>protocol = ''icmp'', ports = None\<rparr>],
           fw_sourceRanges = sourceRanges,
           targetTags = Some [''internal''],
           direction = ''INGRESS'',
           logConfig = \<lparr>metadata = ''INCLUDE_ALL_METADATA''\<rparr>\<rparr>,
        Firewall ''allow-ssh''
          \<lparr>fw_network = ResourceId network,
           allows = [\<lparr>protocol = ''tcp'', ports = Some [''22'']\<rparr>],
           fw_sourceRanges = sshSourceRanges,
           targetTags = None,
           direction = ''INGRESS'',
           logConfig = \<lparr>metadata = ''INCLUDE_ALL_METADATA''\<rparr>\<rparr>]"

text \<open>
  The first of a list of declarations that the provider refuses when they are made one
  after the other, starting in the state \<open>w\<close>; \<open>None\<close> when it refuses none of them.
\<close>

fun first_refused :: "provider \<Rightarrow> world \<Rightarrow> resource list \<Rightarrow> resource option" where
  "first_refused prov w [] = None"
| "first_refused prov w (r # rs) =
     (if prov w r then first_refused prov (w @ [r]) rs else Some r)"

subsection \<open>Providers and inputs to run the model with\<close>

text \<open>Two providers: one that never throws, and one that throws on an empty resource
  name and on nothing else, as the base class of the provider's resources does.\<close>

definition accept_all :: provider where
  "accept_all w r = True"

definition named_only :: provider where
  "named_only w r = (resource_name r \<noteq> [])"

text \<open>
  The log that a run of the entry configuration is expected to end with, by the two
  subnet CIDR ranges, the region and the two values for the source ranges; it is
  the right-hand side of the runs that the theorems are tried on.
\<close>

definition india_world ::
  "string \<Rightarrow> string \<Rightarrow> string \<Rightarrow> string list option \<Rightarrow> string list option \<Rightarrow> world" where
  "india_world cidr1 cidr2 region sr ssr =
     [Network ''india-vpc'' \<lparr>autoCreateSubnetworks = False\<rparr>,
      Subnetwork ''vpc-subnet-1''
        \<lparr>ipCidrRange = cidr1, subnet_region = region,
         subnet_network = ResourceId 0, privateIpGoogleAccess = True\<rparr>,
      Subnetwork ''vpc-subnet-2''
        \<lparr>ipCidrRange = cidr2, subnet_region = region,
         subnet_network = ResourceId 0, privateIpGoogleAccess = True\<rparr>,
      Firewall ''allow-internal''
        \<lparr>fw_network = ResourceId 0,
         allows =
           [\<lparr>protocol = ''tcp'', ports = Some [''0-65535'']\<rparr>,
            \<lparr>protocol = ''udp'', ports = Some [''0-65535'']\<rparr>,
            \<lparr>protocol = ''icmp'', ports = None\<rparr>],
         fw_sourceRanges = sr,
         targetTags = Some [''internal''],
         direction = ''INGRESS'',
         logConfig = \<lparr>metadata = ''INCLUDE_ALL_METADATA''\<rparr>\<rparr>,
      Firewall ''allow-ssh''
        \<lparr>fw_network = ResourceId 0,
         allows = [\<lparr>protocol = ''tcp'', ports = Some [''22'']\<rparr>],
         fw_sourceRanges = ssr,
         targetTags = None,
         direction = ''INGRESS'',
         logConfig = \<lparr>metadata = ''INCLUDE_ALL_METADATA''\<rparr>\<rparr>]"

text \<open>
  The subnet configuration that index.ts builds when no variable is set, and the log of
  the constructor's run on it, started with nothing declared, with \<^verbatim>\<open>["10.0.0.0/8"]\<close>
  and \<^verbatim>\<open>["203.0.113.5/32"]\<close> as the two lists of source ranges.
\<close>

definition scenario_subnetsConfig :: "subnetConfig list" where
  "scenario_subnetsConfig =
     [\<lparr>cidrRange = ''10.0.0.0/16'', cfg_name = ''vpc-subnet-1''\<rparr>,
      \<lparr>cidrRange = ''10.1.0.0/16'', cfg_name = ''vpc-subnet-2''\<rparr>]"

definition scenario_world :: world where
  "scenario_world =
     india_world ''10.0.0.0/16'' ''10.1.0.0/16'' ''us-central1''
       (Some [''10.0.0.0/8'']) (Some [''203.0.113.5/32''])"



section \<open>The log of a run\<close>

lemma new_resource_Inr:
  "new_resource prov r w = Inr (h, w') \<longleftrightarrow> prov w r \<and> h = length w \<and> w' = w @ [r]"
  by (auto simp: new_resource_def)

lemma new_resource_Inl:
  "new_resource prov r w = Inl e \<longleftrightarrow> \<not> prov w r \<and> e = ResourceError r"
  by (auto simp: new_resource_def)

lemma networks_append: "networks (xs @ ys) = networks xs @ networks ys"
  by (induction xs rule: networks.induct) simp_all

lemma subnetworks_append: "subnetworks (xs @ ys) = subnetworks xs @ subnetworks ys"
  by (induction xs rule: subnetworks.induct) simp_all

lemma firewalls_append: "firewalls (xs @ ys) = firewalls xs @ firewalls ys"
  by (induction xs rule: firewalls.induct) simp_all

lemma networks_Subnetworks: "networks (map (\<lambda>c. Subnetwork (f c) (g c)) cs) = []"
  by (induction cs) simp_all

lemma firewalls_Subnetworks: "firewalls (map (\<lambda>c. Subnetwork (f c) (g c)) cs) = []"
  by (induction cs) simp_all

lemma subnetworks_Subnetworks:
  "subnetworks (map (\<lambda>c. Subnetwork (f c) (g c)) cs) = map (\<lambda>c. (f c, g c)) cs"
  by (induction cs) simp_all

lemma forEach_subnetsConfig_Inr:
  "forEach_subnetsConfig prov region cs this w = Inr (this', w') \<Longrightarrow>
     this' = this\<lparr>subnets := subnets this @ [length w ..< length w + length cs]\<rparr> \<and>
     w' = w @ map (\<lambda>c. Subnetwork (cfg_name c)
                     \<lparr>ipCidrRange = cidrRange c, subnet_region = region,
                      subnet_network = ResourceId (vpc this),
                      privateIpGoogleAccess = True\<rparr>) cs"
proof (induction cs arbitrary: this w)
  case Nil
  then show ?case by simp
next
  case (Cons c cs)
  let ?r = "Subnetwork (cfg_name c)
              \<lparr>ipCidrRange = cidrRange c, subnet_region = region,
               subnet_network = ResourceId (vpc this), privateIpGoogleAccess = True\<rparr>"
  from Cons.prems obtain h w1 where
    new: "new_resource prov ?r w = Inr (h, w1)" and
    rest: "forEach_subnetsConfig prov region cs (this\<lparr>subnets := subnets this @ [h]\<rparr>) w1
             = Inr (this', w')"
    by (auto split: sum.splits)
  from new have h: "h = length w" and w1: "w1 = w @ [?r]"
    by (simp_all add: new_resource_Inr)
  have upt: "[length w ..< length w + length (c # cs)]
               = length w # [length w1 ..< length w1 + length cs]"
    by (simp del: upt_Suc add: w1 upt_conv_Cons)
  from Cons.IH [OF rest] have
    "this' = this\<lparr>subnets := (subnets this @ [h]) @ [length w1 ..< length w1 + length cs]\<rparr>"
    and "w' = w1 @ map (\<lambda>c. Subnetwork (cfg_name c)
                     \<lparr>ipCidrRange = cidrRange c, subnet_region = region,
                      subnet_network = ResourceId (vpc this),
                      privateIpGoogleAccess = True\<rparr>) cs"
    by simp_all
  then show ?case
    unfolding upt by (simp add: h w1)
qed

lemma createFirewallRules_Inr:
  "createFirewallRules prov this sr ssr w = Inr (u, w') \<Longrightarrow>
     w' = w @ [Firewall ''allow-internal''
                 \<lparr>fw_network = ResourceId (vpc this),
                  allows =
                    [\<lparr>protocol = ''tcp'', ports = Some [''0-65535'']\<rparr>,
                     \<lparr>protocol = ''udp'', ports = Some [''0-65535'']\<rparr>,
                     \<lparr>protocol = ''icmp'', ports = None\<rparr>],
                  fw_sourceRanges = sr,
                  targetTags = Some [''internal''],
                  direction = ''INGRESS'',
                  logConfig = \<lparr>metadata = ''INCLUDE_ALL_METADATA''\<rparr>\<rparr>,
               Firewall ''allow-ssh''
                 \<lparr>fw_network = ResourceId (vpc this),
                  allows = [\<lparr>protocol = ''tcp'', ports = Some [''22'']\<rparr>],
                  fw_sourceRanges = ssr,
                  targetTags = None,
                  direction = ''INGRESS'',
                  logConfig = \<lparr>metadata = ''INCLUDE_ALL_METADATA''\<rparr>\<rparr>]"
  by (auto simp: createFirewallRules_def new_resource_def split: if_splits)

lemma VPC_constructor_Inr:
  assumes "VPC_constructor prov name region cs sr ssr w = Inr (this, w')"
  shows "this = \<lparr>vpc = length w, subnets = [Suc (length w) ..< Suc (length w) + length cs]\<rparr>"
    and "w' = w @ created w w'"
    and "created w w' =
           Network name \<lparr>autoCreateSubnetworks = False\<rparr>
           # map (\<lambda>c. Subnetwork (cfg_name c)
                   \<lparr>ipCidrRange = cidrRange c, subnet_region = region,
                    subnet_network = ResourceId (length w),
                    privateIpGoogleAccess = True\<rparr>) cs
           @ [Firewall ''allow-internal''
                \<lparr>fw_network = ResourceId (length w),
                 allows =
                   [\<lparr>protocol = ''tcp'', ports = Some [''0-65535'']\<rparr>,
                    \<lparr>protocol = ''udp'', ports = Some [''0-65535'']\<rparr>,
                    \<lparr>protocol = ''icmp'', ports = None\<rparr>],
                 fw_sourceRanges = sr,
                 targetTags = Some [''internal''],
                 direction = ''INGRESS'',
                 logConfig = \<lparr>metadata = ''INCLUDE_ALL_METADATA''\<rparr>\<rparr>,
              Firewall ''allow-ssh''
                \<lparr>fw_network = ResourceId (length w),
                 allows = [\<lparr>protocol = ''tcp'', ports = Some [''22'']\<rparr>],
                 fw_sourceRanges = ssr,
                 targetTags = None,
                 direction = ''INGRESS'',
                 logConfig = \<lparr>metadata = ''INCLUDE_ALL_METADATA''\<rparr>\<rparr>]"
      (is "_ = ?new")
proof -
  from assms obtain h w1 w2 u where
    n: "new_resource prov (Network name \<lparr>autoCreateSubnetworks = False\<rparr>) w = Inr (h, w1)" and
    l: "forEach_subnetsConfig prov region cs \<lparr>vpc = h, subnets = []\<rparr> w1 = Inr (this, w2)" and
    f: "createFirewallRules prov this sr ssr w2 = Inr (u, w')"
    by (auto simp: VPC_constructor_def split: sum.splits)
  from n have h: "h = length w"
    and w1: "w1 = w @ [Network name \<lparr>autoCreateSubnetworks = False\<rparr>]"
    by (simp_all add: new_resource_Inr)
  from forEach_subnetsConfig_Inr [OF l]
  show t: "this = \<lparr>vpc = length w, subnets = [Suc (length w) ..< Suc (length w) + length cs]\<rparr>"
    by (simp add: h w1)
  from forEach_subnetsConfig_Inr [OF l] createFirewallRules_Inr [OF f] t
  have w': "w' = w @ ?new"
    by (simp add: h w1)
  then show "created w w' = ?new"
    by (simp add: created_def)
  with w' show "w' = w @ created w w'"
    by simp
qed






lemma firewall_named_scenario:
  "firewall_named ''allow-ssh'' (india_world c1 c2 r sr ssr) =
     [\<lparr>fw_network = ResourceId 0,
       allows = [\<lparr>protocol = ''tcp'', ports = Some [''22'']\<rparr>],
       fw_sourceRanges = ssr, targetTags = None, direction = ''INGRESS'',
       logConfig = \<lparr>metadata = ''INCLUDE_ALL_METADATA''\<rparr>\<rparr>]"
  "firewall_named ''allow-internal'' (india_world c1 c2 r sr ssr) =
     [\<lparr>fw_network = ResourceId 0,
       allows =
         [\<lparr>protocol = ''tcp'', ports = Some [''0-65535'']\<rparr>,
          \<lparr>protocol = ''udp'', ports = Some [''0-65535'']\<rparr>,
          \<lparr>protocol = ''icmp'', ports = None\<rparr>],
       fw_sourceRanges = sr, targetTags = Some [''internal''], direction = ''INGRESS'',
       logConfig = \<lparr>metadata = ''INCLUDE_ALL_METADATA''\<rparr>\<rparr>]"
  by (simp_all add: firewall_named_def india_world_def)


lemma indiaVPC_accept_all:
  "indiaVPC accept_all e =
     Inr (\<lparr>vpc = 0, subnets = [1, 2]\<rparr>,
          india_world (js_or (e ''VPC_CIDR_RANGE_1'') ''10.0.0.0/16'')
            (js_or (e ''VPC_CIDR_RANGE_2'') ''10.1.0.0/16'')
            (js_or (e ''GCP_REGION'') ''us-central1'')
            (Some [js_or (e ''VPC_SOURCE_RANGE'') ''10.0.0.0/8'']) None)"
  by (simp add: indiaVPC_def VPC_constructor_def createFirewallRules_def new_resource_def
        accept_all_def india_world_def subnetsConfigIndiaVPC_def sourceRangesIndiaVPC_def)







lemma first_refused_append:
  "first_refused prov w (xs @ ys) =
     (case first_refused prov w xs of
        None \<Rightarrow> first_refused prov (w @ xs) ys
      | Some r \<Rightarrow> Some r)"
  by (induction xs arbitrary: w) (simp_all split: option.splits)

lemma forEach_subnetsConfig_eq:
  "forEach_subnetsConfig prov region cs this w =
     (case first_refused prov w
             (map (\<lambda>c. Subnetwork (cfg_name c)
                     \<lparr>ipCidrRange = cidrRange c, subnet_region = region,
                      subnet_network = ResourceId (vpc this),
                      privateIpGoogleAccess = True\<rparr>) cs) of
        None \<Rightarrow>
          Inr (this\<lparr>subnets := subnets this @ [length w ..< length w + length cs]\<rparr>,
               w @ map (\<lambda>c. Subnetwork (cfg_name c)
                          \<lparr>ipCidrRange = cidrRange c, subnet_region = region,
                           subnet_network = ResourceId (vpc this),
                           privateIpGoogleAccess = True\<rparr>) cs)
      | Some r \<Rightarrow> Inl (ResourceError r))"
proof (induction cs arbitrary: this w)
  case Nil
  show ?case by simp
next
  case (Cons c cs)
  have upt: "[length w ..< length w + length (c # cs)]
               = length w # [Suc (length w) ..< Suc (length w) + length cs]"
    by (simp del: upt_Suc add: upt_conv_Cons)
  show ?case
    unfolding upt
    by (simp add: new_resource_def Cons.IH split: option.splits del: upt_Suc)
qed

lemma createFirewallRules_eq:
  "createFirewallRules prov this sr ssr w =
     (case first_refused prov w
             [Firewall ''allow-internal''
                \<lparr>fw_network = ResourceId (vpc this),
                 allows =
                   [\<lparr>protocol = ''tcp'', ports = Some [''0-65535'']\<rparr>,
                    \<lparr>protocol = ''udp'', ports = Some [''0-65535'']\<rparr>,
                    \<lparr>protocol = ''icmp'', ports = None\<rparr>],
                 fw_sourceRanges = sr,
                 targetTags = Some [''internal''],
                 direction = ''INGRESS'',
                 logConfig = \<lparr>metadata = ''INCLUDE_ALL_METADATA''\<rparr>\<rparr>,
              Firewall ''allow-ssh''
                \<lparr>fw_network = ResourceId (vpc this),
                 allows = [\<lparr>protocol = ''tcp'', ports = Some [''22'']\<rparr>],
                 fw_sourceRanges = ssr,
                 targetTags = None,
                 direction = ''INGRESS'',
                 logConfig = \<lparr>metadata = ''INCLUDE_ALL_METADATA''\<rparr>\<rparr>] of
        None \<Rightarrow> Inr ((), w @
             [Firewall ''allow-internal''
                \<lparr>fw_network = ResourceId (vpc this),
                 allows =
                   [\<lparr>protocol = ''tcp'', ports = Some [''0-65535'']\<rparr>,
                    \<lparr>protocol = ''udp'', ports = Some [''0-65535'']\<rparr>,
                    \<lparr>protocol = ''icmp'', ports = None\<rparr>],
                 fw_sourceRanges = sr,
                 targetTags = Some [''internal''],
                 direction = ''INGRESS'',
                 logConfig = \<lparr>metadata = ''INCLUDE_ALL_METADATA''\<rparr>\<rparr>,
              Firewall ''allow-ssh''
                \<lparr>fw_network = ResourceId (vpc this),
                 allows = [\<lparr>protocol = ''tcp'', ports = Some [''22'']\<rparr>],
                 fw_sourceRanges = ssr,
                 targetTags = None,
                 direction = ''INGRESS'',
                 logConfig = \<lparr>metadata = ''INCLUDE_ALL_METADATA''\<rparr>\<rparr>])
      | Some r \<Rightarrow> Inl (ResourceError r))"
  by (simp add: createFirewallRules_def new_resource_def)

lemma VPC_constructor_eq:
  "VPC_constructor prov name region cs sr ssr w =
     (case first_refused prov w (VPC_declarations name region cs sr ssr (length w)) of
        None \<Rightarrow>
          Inr (\<lparr>vpc = length w, subnets = [Suc (length w) ..< Suc (length w) + length cs]\<rparr>,
               w @ VPC_declarations name region cs sr ssr (length w))
      | Some r \<Rightarrow> Inl (ResourceError r))"
  by (simp add: VPC_constructor_def VPC_declarations_def new_resource_def
        forEach_subnetsConfig_eq createFirewallRules_eq first_refused_append
        split: option.splits del: upt_Suc)

lemma VPC_constructor_none_refused:
  assumes "first_refused prov w (VPC_declarations name region cs sr ssr (length w)) = None"
  shows "VPC_constructor prov name region cs sr ssr w =
           Inr (\<lparr>vpc = length w, subnets = [Suc (length w) ..< Suc (length w) + length cs]\<rparr>,
                w @ VPC_declarations name region cs sr ssr (length w))"
  by (simp add: VPC_constructor_eq assms del: upt_Suc)

lemma scenario_accepted:
  "first_refused named_only []
     (VPC_declarations ''india-vpc'' ''us-central1'' scenario_subnetsConfig
        (Some [''10.0.0.0/8'']) (Some [''203.0.113.5/32'']) (length ([] :: world))) = None"
  by (simp add: VPC_declarations_def named_only_def scenario_subnetsConfig_def)

lemma scenario_run_named_only:
  "VPC_constructor named_only ''india-vpc'' ''us-central1'' scenario_subnetsConfig
     (Some [''10.0.0.0/8'']) (Some [''203.0.113.5/32'']) []
   = Inr (\<lparr>vpc = 0, subnets = [1, 2]\<rparr>, scenario_world)"
  by (simp add: VPC_constructor_def createFirewallRules_def new_resource_def named_only_def
        scenario_subnetsConfig_def scenario_world_def india_world_def)

lemma empty_accepted:
  "first_refused accept_all []
     (VPC_declarations ''india-vpc'' ''us-central1'' [] None None (length ([] :: world))) = None"
  by (simp add: VPC_declarations_def accept_all_def)

section \<open>The claims\<close>

text \<open>
  In every theorem below, \<open>w\<close> is the log before the constructor runs and \<open>w'\<close> the log
  after it; \<open>created w w'\<close> is what the run declared. That no call of the provider throws
  during a run is the hypothesis
  \<open>first_refused prov w (VPC_declarations \<dots> (length w)) = None\<close>, a condition on the
  provider and the arguments alone; the theorems that have it conclude that the
  constructor returns. The theorems about what a rule or the returned object holds
  take a run that returned, \<open>VPC_constructor \<dots> = Inr (this, w')\<close>, as their hypothesis.
\<close>

text \<open>
  Claim C1, as stated, is for every subnet configuration. The provider throws on an
  empty resource name: with one entry whose name is empty the constructor throws the
  provider's error, and no Subnetwork and no firewall rule is declared.
\<close>

theorem VPC_one_network_counterexample:
  "VPC_constructor named_only ''india-vpc'' ''us-central1''
     [\<lparr>cidrRange = ''10.0.0.0/16'', cfg_name = ''''\<rparr>] (Some [''10.0.0.0/8''])
     (Some [''203.0.113.5/32'']) []
   = Inl (ResourceError
            (Subnetwork ''''
               \<lparr>ipCidrRange = ''10.0.0.0/16'', subnet_region = ''us-central1'',
                subnet_network = ResourceId 0, privateIpGoogleAccess = True\<rparr>))"
  by (simp add: VPC_constructor_def createFirewallRules_def new_resource_def named_only_def)

text \<open>
  Claim C1, amended. For a subnet configuration of any length N such that no call of
  the provider throws, the constructor returns, and its run declares exactly one
  Network and exactly N Subnetworks (and two firewall rules) and leaves the earlier
  declarations as they were. \<^verbatim>\<open>this.vpc\<close> is the handle of that Network, and the
  \<^verbatim>\<open>network\<close> property of every Subnetwork and of every firewall rule that the run
  declared is the id of that one Network, and of no other.
\<close>

theorem VPC_one_network_all_refer_to_it:
  assumes "first_refused prov w
             (VPC_declarations name region subnetsConfig sourceRanges sshSourceRanges (length w))
           = None"
  shows "\<exists>this w'.
           VPC_constructor prov name region subnetsConfig sourceRanges sshSourceRanges w
             = Inr (this, w')
         \<and> w' = w @ created w w'
         \<and> length (networks (created w w')) = 1
         \<and> length (subnetworks (created w w')) = length subnetsConfig
         \<and> length (firewalls (created w w')) = 2
         \<and> length w \<le> vpc this \<and> vpc this < length w'
         \<and> w' ! vpc this = Network name \<lparr>autoCreateSubnetworks = False\<rparr>
         \<and> (\<forall>(n, a) \<in> set (subnetworks (created w w')).
               subnet_network a = ResourceId (vpc this))
         \<and> (\<forall>(n, a) \<in> set (firewalls (created w w')). fw_network a = ResourceId (vpc this))"
proof -
  let ?obj = "\<lparr>vpc = length w,
                subnets = [Suc (length w) ..< Suc (length w) + length subnetsConfig]\<rparr>"
  let ?log = "w @ VPC_declarations name region subnetsConfig sourceRanges sshSourceRanges (length w)"
  have returns: "VPC_constructor prov name region subnetsConfig sourceRanges sshSourceRanges w
                   = Inr (?obj, ?log)"
    using assms by (rule VPC_constructor_none_refused)
  note run = VPC_constructor_Inr [OF returns]
  have "length (networks (created w ?log)) = 1"
    by (simp add: run(3) networks_append networks_Subnetworks)
  moreover have "length (subnetworks (created w ?log)) = length subnetsConfig"
    by (simp add: run(3) subnetworks_append subnetworks_Subnetworks)
  moreover have "length (firewalls (created w ?log)) = 2"
    by (simp add: run(3) firewalls_append firewalls_Subnetworks)
  moreover have "vpc ?obj < length ?log"
    by (simp add: VPC_declarations_def)
  moreover have "?log ! vpc ?obj = Network name \<lparr>autoCreateSubnetworks = False\<rparr>"
    by (simp add: VPC_declarations_def)
  moreover have "\<forall>(n, a) \<in> set (subnetworks (created w ?log)).
                   subnet_network a = ResourceId (vpc ?obj)"
    by (simp add: run(3) subnetworks_append subnetworks_Subnetworks)
  moreover have "\<forall>(n, a) \<in> set (firewalls (created w ?log)).
                   fw_network a = ResourceId (vpc ?obj)"
    by (simp add: run(3) firewalls_append firewalls_Subnetworks)
  moreover have "?log = w @ created w ?log"
    by (simp add: created_def)
  ultimately show ?thesis
    using returns by (intro exI [of _ ?obj] exI [of _ ?log]) simp
qed

text \<open>
  The theorem at the configuration of two subnets, started with nothing declared, with
  the provider that throws on an empty name.
\<close>

theorem VPC_one_network_all_refer_to_it_witness:
  "first_refused named_only []
     (VPC_declarations ''india-vpc'' ''us-central1'' scenario_subnetsConfig
        (Some [''10.0.0.0/8'']) (Some [''203.0.113.5/32'']) (length ([] :: world))) = None
   \<and> VPC_constructor named_only ''india-vpc'' ''us-central1'' scenario_subnetsConfig
     (Some [''10.0.0.0/8'']) (Some [''203.0.113.5/32'']) []
     = Inr (\<lparr>vpc = 0, subnets = [1, 2]\<rparr>, scenario_world)
   \<and> length (networks scenario_world) = 1
   \<and> length (subnetworks scenario_world) = 2
   \<and> length (firewalls scenario_world) = 2
   \<and> scenario_world ! 0 = Network ''india-vpc'' \<lparr>autoCreateSubnetworks = False\<rparr>
   \<and> map (\<lambda>(n, a). subnet_network a) (subnetworks scenario_world) = [ResourceId 0, ResourceId 0]
   \<and> map (\<lambda>(n, a). fw_network a) (firewalls scenario_world) = [ResourceId 0, ResourceId 0]"
proof -
  from VPC_one_network_all_refer_to_it [OF scenario_accepted]
  have "length (networks scenario_world) = 1
   \<and> length (subnetworks scenario_world) = 2
   \<and> length (firewalls scenario_world) = 2
   \<and> scenario_world ! 0 = Network ''india-vpc'' \<lparr>autoCreateSubnetworks = False\<rparr>
   \<and> map (\<lambda>(n, a). subnet_network a) (subnetworks scenario_world) = [ResourceId 0, ResourceId 0]
   \<and> map (\<lambda>(n, a). fw_network a) (firewalls scenario_world) = [ResourceId 0, ResourceId 0]"
    unfolding scenario_run_named_only
    by (simp add: created_def scenario_world_def india_world_def scenario_subnetsConfig_def)
  with scenario_accepted scenario_run_named_only show ?thesis
    by blast
qed

text \<open>
  Claim C2, as stated, is for every input, any name included. With the empty string as
  the name, the provider throws on the Network, the constructor throws that error, and
  no firewall rule is declared.
\<close>

theorem VPC_two_firewall_rules_counterexample:
  "VPC_constructor named_only '''' ''us-central1'' scenario_subnetsConfig
     (Some [''10.0.0.0/8'']) (Some [''203.0.113.5/32'']) []
   = Inl (ResourceError (Network '''' \<lparr>autoCreateSubnetworks = False\<rparr>))"
  by (simp add: VPC_constructor_def new_resource_def named_only_def)

text \<open>
  Claim C2, amended. Whatever the name, the region, the subnet configuration (the
  empty list included) and the two lists of source ranges, when no call of the
  provider throws the constructor returns, and the firewall rules that its run declares
  are exactly two, named "allow-internal" and "allow-ssh", in that order.
\<close>

theorem VPC_exactly_two_firewall_rules:
  assumes "first_refused prov w
             (VPC_declarations name region subnetsConfig sourceRanges sshSourceRanges (length w))
           = None"
  shows "\<exists>this w'.
           VPC_constructor prov name region subnetsConfig sourceRanges sshSourceRanges w
             = Inr (this, w')
         \<and> map fst (firewalls (created w w')) = [''allow-internal'', ''allow-ssh'']"
proof -
  from assms have returns:
    "VPC_constructor prov name region subnetsConfig sourceRanges sshSourceRanges w
       = Inr (\<lparr>vpc = length w,
               subnets = [Suc (length w) ..< Suc (length w) + length subnetsConfig]\<rparr>,
              w @ VPC_declarations name region subnetsConfig sourceRanges sshSourceRanges
                    (length w))"
    by (rule VPC_constructor_none_refused)
  show ?thesis
    unfolding returns
    by (simp add: VPC_constructor_Inr(3) [OF returns] firewalls_append firewalls_Subnetworks
          del: upt_Suc)
qed

text \<open>
  The theorem at the configuration of two subnets with the provider that throws on an
  empty name, and at the empty subnet configuration with no source ranges at all.
\<close>

theorem VPC_exactly_two_firewall_rules_witness:
  "first_refused named_only []
     (VPC_declarations ''india-vpc'' ''us-central1'' scenario_subnetsConfig
        (Some [''10.0.0.0/8'']) (Some [''203.0.113.5/32'']) (length ([] :: world))) = None
   \<and> VPC_constructor named_only ''india-vpc'' ''us-central1'' scenario_subnetsConfig
        (Some [''10.0.0.0/8'']) (Some [''203.0.113.5/32'']) []
       = Inr (\<lparr>vpc = 0, subnets = [1, 2]\<rparr>, scenario_world)
   \<and> map fst (firewalls scenario_world) = [''allow-internal'', ''allow-ssh'']
   \<and> first_refused accept_all []
       (VPC_declarations ''india-vpc'' ''us-central1'' [] None None (length ([] :: world))) = None
   \<and> (\<exists>this w'. VPC_constructor accept_all ''india-vpc'' ''us-central1'' [] None None []
                    = Inr (this, w')
          \<and> map fst (firewalls w') = [''allow-internal'', ''allow-ssh''])"
proof -
  from VPC_exactly_two_firewall_rules [OF scenario_accepted]
  have a: "map fst (firewalls scenario_world) = [''allow-internal'', ''allow-ssh'']"
    unfolding scenario_run_named_only by (simp add: created_def)
  from VPC_exactly_two_firewall_rules [OF empty_accepted]
  have b: "\<exists>this w'. VPC_constructor accept_all ''india-vpc'' ''us-central1'' [] None None []
                    = Inr (this, w')
          \<and> map fst (firewalls w') = [''allow-internal'', ''allow-ssh'']"
    by (simp add: created_def)
  from scenario_accepted scenario_run_named_only a empty_accepted b show ?thesis
    by blast
qed







text \<open>
  Claim C9, as stated, gives every entry of the subnet configuration a created
  Subnetwork. With a second entry whose name is empty, the provider throws on that
  entry, the constructor throws that error, and the entry has no Subnetwork.
\<close>

theorem VPC_subnetworks_counterexample:
  "VPC_constructor named_only ''india-vpc'' ''us-central1''
     [\<lparr>cidrRange = ''10.0.0.0/16'', cfg_name = ''vpc-subnet-1''\<rparr>,
      \<lparr>cidrRange = ''10.1.0.0/16'', cfg_name = ''''\<rparr>] None None []
   = Inl (ResourceError
            (Subnetwork ''''
               \<lparr>ipCidrRange = ''10.1.0.0/16'', subnet_region = ''us-central1'',
                subnet_network = ResourceId 0, privateIpGoogleAccess = True\<rparr>))"
  by (simp add: VPC_constructor_def createFirewallRules_def new_resource_def named_only_def)

text \<open>
  Claim C9, amended. When no call of the provider throws, the constructor returns, and
  the Subnetworks that its run declares are, in the order of the subnet configuration,
  one per entry: each is declared under the entry's name, with the entry's CIDR range,
  the constructor's region, private Google access switched on and the run's Network as
  its network. That Network is declared with the automatic creation of subnetworks
  switched off.
\<close>

theorem VPC_subnetworks_follow_config:
  assumes "first_refused prov w
             (VPC_declarations name region subnetsConfig sourceRanges sshSourceRanges (length w))
           = None"
  shows "\<exists>this w'.
           VPC_constructor prov name region subnetsConfig sourceRanges sshSourceRanges w
             = Inr (this, w')
         \<and> map (\<lambda>(n, a). (n, ipCidrRange a, subnet_region a, privateIpGoogleAccess a,
                    subnet_network a)) (subnetworks (created w w'))
             = map (\<lambda>c. (cfg_name c, cidrRange c, region, True, ResourceId (vpc this)))
                 subnetsConfig
         \<and> networks (created w w') = [(name, \<lparr>autoCreateSubnetworks = False\<rparr>)]
         \<and> w' ! vpc this = Network name \<lparr>autoCreateSubnetworks = False\<rparr>"
proof -
  let ?obj = "\<lparr>vpc = length w,
               subnets = [Suc (length w) ..< Suc (length w) + length subnetsConfig]\<rparr>"
  let ?log = "w @ VPC_declarations name region subnetsConfig sourceRanges sshSourceRanges (length w)"
  have returns: "VPC_constructor prov name region subnetsConfig sourceRanges sshSourceRanges w
                   = Inr (?obj, ?log)"
    using assms by (rule VPC_constructor_none_refused)
  note run = VPC_constructor_Inr [OF returns]
  have "map (\<lambda>(n, a). (n, ipCidrRange a, subnet_region a, privateIpGoogleAccess a,
                    subnet_network a)) (subnetworks (created w ?log))
          = map (\<lambda>c. (cfg_name c, cidrRange c, region, True, ResourceId (vpc ?obj)))
              subnetsConfig"
    by (simp add: run(3) subnetworks_append subnetworks_Subnetworks)
  moreover have "networks (created w ?log) = [(name, \<lparr>autoCreateSubnetworks = False\<rparr>)]"
    by (simp add: run(3) networks_append networks_Subnetworks)
  moreover have "?log ! vpc ?obj = Network name \<lparr>autoCreateSubnetworks = False\<rparr>"
    by (simp add: VPC_declarations_def)
  ultimately show ?thesis
    using returns by (intro exI [of _ ?obj] exI [of _ ?log]) simp
qed

text \<open>The theorem at the configuration of two subnets, with the provider that throws on
  an empty name.\<close>

theorem VPC_subnetworks_follow_config_witness:
  "first_refused named_only []
     (VPC_declarations ''india-vpc'' ''us-central1'' scenario_subnetsConfig
        (Some [''10.0.0.0/8'']) (Some [''203.0.113.5/32'']) (length ([] :: world))) = None
   \<and> VPC_constructor named_only ''india-vpc'' ''us-central1'' scenario_subnetsConfig
     (Some [''10.0.0.0/8'']) (Some [''203.0.113.5/32'']) []
     = Inr (\<lparr>vpc = 0, subnets = [1, 2]\<rparr>, scenario_world)
   \<and> map (\<lambda>(n, a). (n, ipCidrRange a, subnet_region a, privateIpGoogleAccess a,
                subnet_network a)) (subnetworks scenario_world)
       = [(''vpc-subnet-1'', ''10.0.0.0/16'', ''us-central1'', True, ResourceId 0),
          (''vpc-subnet-2'', ''10.1.0.0/16'', ''us-central1'', True, ResourceId 0)]
   \<and> networks scenario_world = [(''india-vpc'', \<lparr>autoCreateSubnetworks = False\<rparr>)]
   \<and> scenario_world ! 0 = Network ''india-vpc'' \<lparr>autoCreateSubnetworks = False\<rparr>"
proof -
  from VPC_subnetworks_follow_config [OF scenario_accepted]
  have "map (\<lambda>(n, a). (n, ipCidrRange a, subnet_region a, privateIpGoogleAccess a,
                subnet_network a)) (subnetworks scenario_world)
       = [(''vpc-subnet-1'', ''10.0.0.0/16'', ''us-central1'', True, ResourceId 0),
          (''vpc-subnet-2'', ''10.1.0.0/16'', ''us-central1'', True, ResourceId 0)]
   \<and> networks scenario_world = [(''india-vpc'', \<lparr>autoCreateSubnetworks = False\<rparr>)]
   \<and> scenario_world ! 0 = Network ''india-vpc'' \<lparr>autoCreateSubnetworks = False\<rparr>"
    unfolding scenario_run_named_only
    by (simp add: created_def scenario_subnetsConfig_def)
  with scenario_accepted scenario_run_named_only show ?thesis
    by blast
qed

text \<open>
  Claim C8. The constructor has no validation of its own: for every input and every
  provider, its outcome is that of making the declarations of \<open>VPC_declarations\<close> one
  after the other. It returns exactly when the provider refuses none of them, with
  all of them declared after what was declared before; otherwise it throws the error
  of the first call that the provider refused, and no other. The declarations carry
  the name, the entries of the subnet configuration (the empty list and malformed CIDR
  strings included), the region and the two values for the source ranges unchanged.
\<close>

theorem VPC_constructor_no_local_validation:
  "VPC_constructor prov name region subnetsConfig sourceRanges sshSourceRanges w =
     (case first_refused prov w
             (VPC_declarations name region subnetsConfig sourceRanges sshSourceRanges
                (length w)) of
        None \<Rightarrow>
          Inr (\<lparr>vpc = length w,
                 subnets = [Suc (length w) ..< Suc (length w) + length subnetsConfig]\<rparr>,
               w @ VPC_declarations name region subnetsConfig sourceRanges sshSourceRanges
                     (length w))
      | Some r \<Rightarrow> Inl (ResourceError r))
   \<and> map resource_name
        (VPC_declarations name region subnetsConfig sourceRanges sshSourceRanges network)
       = name # map cfg_name subnetsConfig @ [''allow-internal'', ''allow-ssh'']
   \<and> networks (VPC_declarations name region subnetsConfig sourceRanges sshSourceRanges network)
       = [(name, \<lparr>autoCreateSubnetworks = False\<rparr>)]
   \<and> map (\<lambda>(n, a). (n, ipCidrRange a, subnet_region a))
        (subnetworks
           (VPC_declarations name region subnetsConfig sourceRanges sshSourceRanges network))
       = map (\<lambda>c. (cfg_name c, cidrRange c, region)) subnetsConfig
   \<and> map (\<lambda>(n, a). fw_sourceRanges a)
        (firewalls
           (VPC_declarations name region subnetsConfig sourceRanges sshSourceRanges network))
       = [sourceRanges, sshSourceRanges]"
proof (intro conjI)
  show "VPC_constructor prov name region subnetsConfig sourceRanges sshSourceRanges w =
     (case first_refused prov w
             (VPC_declarations name region subnetsConfig sourceRanges sshSourceRanges
                (length w)) of
        None \<Rightarrow>
          Inr (\<lparr>vpc = length w,
                 subnets = [Suc (length w) ..< Suc (length w) + length subnetsConfig]\<rparr>,
               w @ VPC_declarations name region subnetsConfig sourceRanges sshSourceRanges
                     (length w))
      | Some r \<Rightarrow> Inl (ResourceError r))"
    by (rule VPC_constructor_eq)
qed (simp_all add: VPC_declarations_def comp_def networks_append networks_Subnetworks
       subnetworks_append subnetworks_Subnetworks firewalls_append firewalls_Subnetworks)

text \<open>
  The theorem with the provider that throws on an empty name: at a malformed CIDR
  range, region and source range, at the empty subnet configuration, and at a
  Subnetwork without a name, which is the call that the provider refuses.
\<close>

theorem VPC_constructor_no_local_validation_witness:
  "VPC_constructor named_only ''india-vpc'' ''no such region''
     [\<lparr>cidrRange = ''300.0.0.0/99'', cfg_name = ''s''\<rparr>] (Some [''not a range'']) None []
     = Inr (\<lparr>vpc = 0, subnets = [1]\<rparr>,
            VPC_declarations ''india-vpc'' ''no such region''
              [\<lparr>cidrRange = ''300.0.0.0/99'', cfg_name = ''s''\<rparr>] (Some [''not a range''])
              None 0)
   \<and> VPC_constructor named_only ''india-vpc'' ''us-central1'' [] None None []
       = Inr (\<lparr>vpc = 0, subnets = []\<rparr>,
              VPC_declarations ''india-vpc'' ''us-central1'' [] None None 0)
   \<and> subnetworks (VPC_declarations ''india-vpc'' ''us-central1'' [] None None 0) = []
   \<and> VPC_constructor named_only ''india-vpc'' ''us-central1''
        [\<lparr>cidrRange = ''10.0.0.0/16'', cfg_name = ''''\<rparr>] None None []
       = Inl (ResourceError
                (Subnetwork ''''
                   \<lparr>ipCidrRange = ''10.0.0.0/16'', subnet_region = ''us-central1'',
                    subnet_network = ResourceId 0, privateIpGoogleAccess = True\<rparr>))
   \<and> \<not> named_only [Network ''india-vpc'' \<lparr>autoCreateSubnetworks = False\<rparr>]
         (Subnetwork ''''
            \<lparr>ipCidrRange = ''10.0.0.0/16'', subnet_region = ''us-central1'',
             subnet_network = ResourceId 0, privateIpGoogleAccess = True\<rparr>)"
proof (intro conjI)
  show "VPC_constructor named_only ''india-vpc'' ''no such region''
     [\<lparr>cidrRange = ''300.0.0.0/99'', cfg_name = ''s''\<rparr>] (Some [''not a range'']) None []
     = Inr (\<lparr>vpc = 0, subnets = [1]\<rparr>,
            VPC_declarations ''india-vpc'' ''no such region''
              [\<lparr>cidrRange = ''300.0.0.0/99'', cfg_name = ''s''\<rparr>] (Some [''not a range''])
              None 0)"
    using VPC_constructor_no_local_validation
            [of named_only "''india-vpc''" "''no such region''"
               "[\<lparr>cidrRange = ''300.0.0.0/99'', cfg_name = ''s''\<rparr>]"
               "Some [''not a range'']" None "[]"]
    by (simp add: VPC_declarations_def named_only_def)
  show "VPC_constructor named_only ''india-vpc'' ''us-central1'' [] None None []
       = Inr (\<lparr>vpc = 0, subnets = []\<rparr>,
              VPC_declarations ''india-vpc'' ''us-central1'' [] None None 0)"
    using VPC_constructor_no_local_validation
            [of named_only "''india-vpc''" "''us-central1''" "[]" None None "[]"]
    by (simp add: VPC_declarations_def named_only_def)
  show "subnetworks (VPC_declarations ''india-vpc'' ''us-central1'' [] None None 0) = []"
    by (simp add: VPC_declarations_def)
  show "VPC_constructor named_only ''india-vpc'' ''us-central1''
        [\<lparr>cidrRange = ''10.0.0.0/16'', cfg_name = ''''\<rparr>] None None []
       = Inl (ResourceError
                (Subnetwork ''''
                   \<lparr>ipCidrRange = ''10.0.0.0/16'', subnet_region = ''us-central1'',
                    subnet_network = ResourceId 0, privateIpGoogleAccess = True\<rparr>))"
    using VPC_constructor_no_local_validation
            [of named_only "''india-vpc''" "''us-central1''"
               "[\<lparr>cidrRange = ''10.0.0.0/16'', cfg_name = ''''\<rparr>]" None None "[]"]
    by (simp add: VPC_declarations_def named_only_def)
  show "\<not> named_only [Network ''india-vpc'' \<lparr>autoCreateSubnetworks = False\<rparr>]
         (Subnetwork ''''
            \<lparr>ipCidrRange = ''10.0.0.0/16'', subnet_region = ''us-central1'',
             subnet_network = ResourceId 0, privateIpGoogleAccess = True\<rparr>)"
    by (simp add: named_only_def)
qed




text \<open>
  Claim C4. The call in index.ts has four arguments where the constructor declares
  five, so nothing of the environment reaches \<^verbatim>\<open>sshSourceRanges\<close>. Run as the JavaScript
  it compiles to, with VPC_SSH_SOURCE_RANGE set to a trusted range, the program
  declares the rule "allow-internal" with \<^verbatim>\<open>sourceRangesIndiaVPC\<close> as its source ranges
  and the rule "allow-ssh" with no source ranges: neither \<^verbatim>\<open>sourceRangesIndiaVPC\<close>, as
  the claim has it, nor the trusted range.
\<close>

theorem indiaVPC_allow_ssh_without_source_ranges:
  "indiaVPC accept_all [''VPC_SSH_SOURCE_RANGE'' \<mapsto> ''203.0.113.5/32''] =
     Inr (\<lparr>vpc = 0, subnets = [1, 2]\<rparr>,
          india_world ''10.0.0.0/16'' ''10.1.0.0/16'' ''us-central1''
            (Some [''10.0.0.0/8'']) None)
   \<and> sourceRangesIndiaVPC [''VPC_SSH_SOURCE_RANGE'' \<mapsto> ''203.0.113.5/32''] = [''10.0.0.0/8'']
   \<and> map fw_sourceRanges
        (firewall_named ''allow-internal''
           (india_world ''10.0.0.0/16'' ''10.1.0.0/16'' ''us-central1''
              (Some [''10.0.0.0/8'']) None))
       = [Some [''10.0.0.0/8'']]
   \<and> map fw_sourceRanges
        (firewall_named ''allow-ssh''
           (india_world ''10.0.0.0/16'' ''10.1.0.0/16'' ''us-central1''
              (Some [''10.0.0.0/8'']) None))
       = [None]"
  by (simp add: indiaVPC_accept_all firewall_named_scenario sourceRangesIndiaVPC_def js_or_def)



end
